theory Spec2Isabelle
  imports Complex_Main "HOL-Library.AList" "HOL-Library.Signed_Division"
begin

text \<open>
  The package \<open>influx\<close> binds the rows of an InfluxDB query result to Go values
  through \<open>reflect\<close> (\<open>ParseResult\<close>) and turns a struct into a point to write
  (\<open>ToPoint\<close>). The theory gives its functions as functions of HOL, in the order of
  the source file, and then proves what holds of them.
\<close>

section \<open>Runes and the string helpers of the Go library\<close>

text \<open>
  Go strings are modelled as \<open>string\<close>; a rune is a \<open>char\<close>. The character classes
  below are those of package \<open>unicode\<close> on the ASCII range, which is all the
  naming convention of this package is used on; runes beyond ASCII are outside the model.
\<close>

definition isUpper :: "char \<Rightarrow> bool" where
  "isUpper c = (65 \<le> (of_char c :: nat) \<and> (of_char c :: nat) \<le> 90)"

definition isLower :: "char \<Rightarrow> bool" where
  "isLower c = (97 \<le> (of_char c :: nat) \<and> (of_char c :: nat) \<le> 122)"

definition isDigit :: "char \<Rightarrow> bool" where
  "isDigit c = (48 \<le> (of_char c :: nat) \<and> (of_char c :: nat) \<le> 57)"

definition toLower :: "char \<Rightarrow> char" where
  "toLower c = (if isUpper c then char_of ((of_char c :: nat) + 32) else c)"

definition toTitle :: "char \<Rightarrow> char" where
  "toTitle c = (if isLower c then char_of ((of_char c :: nat) - 32) else c)"

text \<open>
  \<open>strings.isSeparator\<close>: ASCII letters, digits and the underscore do not separate
  words, every other ASCII character does.
\<close>

definition isSeparator :: "char \<Rightarrow> bool" where
  "isSeparator c = (\<not> (isDigit c \<or> isLower c \<or> isUpper c \<or> c = CHR ''_''))"

text \<open>
  \<open>strings.Title\<close> maps the runes of its argument from left to right, remembering the
  previous rune (a space at the start), and puts a rune in title case when the previous
  one is a separator.
\<close>

fun Title_loop :: "char \<Rightarrow> string \<Rightarrow> string" where
  "Title_loop prev [] = []"
| "Title_loop prev (r # rs) =
     (if isSeparator prev then toTitle r else r) # Title_loop r rs"

definition Title :: "string \<Rightarrow> string" where
  "Title s = Title_loop (CHR '' '') s"

text \<open>
  \<open>strings.Split\<close> with a separator of one character: the segments between the
  occurrences of the separator, so that an input without separator (the empty string
  too) gives one segment. \<open>strings.Join\<close> puts the separator back.
\<close>

fun Split :: "string \<Rightarrow> char \<Rightarrow> string list" where
  "Split [] sep = [[]]"
| "Split (c # cs) sep =
     (if c = sep then [] # Split cs sep
      else (case Split cs sep of
              [] \<Rightarrow> [[c]]
            | seg # segs \<Rightarrow> (c # seg) # segs))"

fun Join :: "string list \<Rightarrow> string \<Rightarrow> string" where
  "Join [] sep = []"
| "Join [seg] sep = seg"
| "Join (seg # segs) sep = seg @ sep @ Join segs sep"

section \<open>Go values\<close>

text \<open>
  The values the package handles through \<open>interface{}\<close> and \<open>reflect.Value\<close>:
  the values of a row as the client library decodes them, and the values of a
  destination. \<open>VInt\<close> stands for the kinds \<open>Int\<close> to \<open>Int64\<close> (read by
  \<open>Value.Int\<close> as an \<open>int64\<close>), \<open>VUint\<close> for \<open>Uint\<close> to \<open>Uint64\<close>, \<open>VFloat\<close>
  for a finite \<open>float32\<close> or \<open>float64\<close>, given by the rational number it denotes.
  \<open>VStr\<close> is a value of type \<open>string\<close>, \<open>VNamedStr\<close> one of a defined type of kind
  \<open>String\<close> (\<open>json.Number\<close>, which the client library produces for numbers): the two
  differ under the type assertion \<open>i.(string)\<close> only. \<open>VTime\<close> is a \<open>time.Time\<close>, as
  the nanoseconds from the Unix epoch to the instant. \<open>VNil\<close> is the nil interface and
  \<open>VOther\<close> a value of any other kind (a bool, a channel and so on).
\<close>

datatype gval =
    VNil
  | VInt int
  | VUint int
  | VFloat rat
  | VStr string
  | VNamedStr string
  | VTime int
  | VPtr "gval option"
  | VStruct "gval list"
  | VSlice "gval list"
  | VMap "(gval \<times> gval) list option"
  | VOther nat

text \<open>Conversions between the integer types wrap, as Go's do.\<close>

definition wrap_int64 :: "int \<Rightarrow> int" where
  "wrap_int64 x = (x + 2 ^ 63) mod 2 ^ 64 - 2 ^ 63"

definition wrap_uint64 :: "int \<Rightarrow> int" where
  "wrap_uint64 x = x mod 2 ^ 64"

text \<open>
  \<open>int64(f)\<close> for a float \<open>f\<close> discards the fraction. Where the result does not fit,
  the language leaves it to the implementation; the model takes the smallest
  \<open>int64\<close>, which is what the amd64 instruction gives.
\<close>

definition int64_of_float :: "rat \<Rightarrow> int" where
  "int64_of_float q =
     (let t = (if 0 \<le> q then \<lfloor>q\<rfloor> else \<lceil>q\<rceil>)
      in if - (2 ^ 63) \<le> t \<and> t < 2 ^ 63 then t else - (2 ^ 63))"

section \<open>The library functions the coercions call\<close>

subsection \<open>\<open>strconv.ParseInt\<close> in base 10 with 64 bits\<close>

datatype numError = ErrSyntax | ErrRange

definition digitVal :: "char \<Rightarrow> int" where
  "digitVal c = int (of_char c) - 48"

text \<open>
  \<open>strconv.ParseUint\<close>: the loop over the bytes. A byte that is not a digit is a
  syntax error with the value 0; a value that leaves 64 bits is a range error with the
  largest value, returned at once, whatever follows.
\<close>

fun ParseUint_loop :: "int \<Rightarrow> string \<Rightarrow> int \<times> numError option" where
  "ParseUint_loop n [] = (n, None)"
| "ParseUint_loop n (c # cs) =
     (if \<not> isDigit c then (0, Some ErrSyntax)
      else if n \<ge> (2 ^ 64 - 1) div 10 + 1 then (2 ^ 64 - 1, Some ErrRange)
      else (let n1 = n * 10 + digitVal c
            in if n1 > 2 ^ 64 - 1 then (2 ^ 64 - 1, Some ErrRange)
               else ParseUint_loop n1 cs))"

definition ParseUint :: "string \<Rightarrow> int \<times> numError option" where
  "ParseUint s = (if s = [] then (0, Some ErrSyntax) else ParseUint_loop 0 s)"

definition ParseInt :: "string \<Rightarrow> int \<times> numError option" where
  "ParseInt s0 =
     (if s0 = [] then (0, Some ErrSyntax)
      else
        (let neg = (hd s0 = CHR ''-'');
             s = (if hd s0 = CHR ''+'' \<or> hd s0 = CHR ''-'' then tl s0 else s0);
             (un, err) = ParseUint s
         in if err = Some ErrSyntax then (0, err)
            else if \<not> neg \<and> un \<ge> 2 ^ 63 then (2 ^ 63 - 1, Some ErrRange)
            else if neg \<and> un > 2 ^ 63 then (- (2 ^ 63), Some ErrRange)
            else (if neg then - un else un, None)))"

subsection \<open>\<open>time.Parse\<close> with the layout \<open>time.RFC3339\<close>\<close>

text \<open>
  The model reads the strict form
  \<open>YYYY-MM-DDThh:mm:ss\<close>, an optional fraction of a second, and \<open>Z\<close> or an
  offset \<open>+hh:mm\<close> or \<open>-hh:mm\<close>, checks the ranges of the fields, and gives the
  instant as nanoseconds from the Unix epoch. A time is kept as this number, without
  its location. Input that Go's parser accepts beyond the strict form is a parse error
  in the model.
\<close>

definition number :: "string \<Rightarrow> int option" where
  "number ds = (if ds \<noteq> [] \<and> list_all isDigit ds
                then Some (foldl (\<lambda>n c. n * 10 + digitVal c) 0 ds) else None)"

definition isLeap :: "int \<Rightarrow> bool" where
  "isLeap y = (y mod 4 = 0 \<and> (y mod 100 \<noteq> 0 \<or> y mod 400 = 0))"

definition daysIn :: "int \<Rightarrow> int \<Rightarrow> int" where
  "daysIn m y =
     (if m = 2 then (if isLeap y then 29 else 28)
      else if m = 4 \<or> m = 6 \<or> m = 9 \<or> m = 11 then 30 else 31)"

text \<open>The days from 1970-01-01 to a date of the proleptic Gregorian calendar.\<close>

definition daysFromCivil :: "int \<Rightarrow> int \<Rightarrow> int \<Rightarrow> int" where
  "daysFromCivil y m d =
     (let y' = (if m \<le> 2 then y - 1 else y);
          era = y' div 400;
          yoe = y' - era * 400;
          doy = (153 * (if m > 2 then m - 3 else m + 9) + 2) div 5 + d - 1;
          doe = yoe * 365 + yoe div 4 - yoe div 100 + doy
      in era * 146097 + doe - 719468)"

text \<open>
  The fraction of a second: a period and at least one digit; the digits after the
  ninth are dropped. The result is the nanoseconds and the rest of the input.
\<close>

definition parseFraction :: "string \<Rightarrow> int \<times> string" where
  "parseFraction s =
     (case s of
        c # cs \<Rightarrow>
          (let ds = takeWhile isDigit cs
           in if c = CHR ''.'' \<and> ds \<noteq> []
              then (foldl (\<lambda>n c. n * 10 + digitVal c) 0 (take 9 (ds @ replicate 9 (CHR ''0''))),
                    dropWhile isDigit cs)
              else (0, s))
      | [] \<Rightarrow> (0, s))"

text \<open>The zone: the seconds east of UTC.\<close>

definition parseZone :: "string \<Rightarrow> int option" where
  "parseZone z =
     (if z = ''Z'' then Some 0
      else if length z = 6 \<and> (z ! 0 = CHR ''+'' \<or> z ! 0 = CHR ''-'') \<and> z ! 3 = CHR '':''
      then (case (number (take 2 (drop 1 z)), number (drop 4 z)) of
              (Some h, Some m) \<Rightarrow>
                (if h < 24 \<and> m < 60
                 then Some ((if z ! 0 = CHR ''-'' then - 1 else 1) * (h * 3600 + m * 60))
                 else None)
            | _ \<Rightarrow> None)
      else None)"

definition parseRFC3339 :: "string \<Rightarrow> int option" where
  "parseRFC3339 s =
     (if length s < 20 \<or> s ! 4 \<noteq> CHR ''-'' \<or> s ! 7 \<noteq> CHR ''-'' \<or> s ! 10 \<noteq> CHR ''T''
         \<or> s ! 13 \<noteq> CHR '':'' \<or> s ! 16 \<noteq> CHR '':'' then None
      else
        (case (number (take 4 s), number (take 2 (drop 5 s)), number (take 2 (drop 8 s)),
               number (take 2 (drop 11 s)), number (take 2 (drop 14 s)),
               number (take 2 (drop 17 s))) of
           (Some y, Some mo, Some d, Some h, Some mi, Some sec) \<Rightarrow>
             (let (ns, z) = parseFraction (drop 19 s)
              in case parseZone z of
                   Some off \<Rightarrow>
                     (if 1 \<le> mo \<and> mo \<le> 12 \<and> 1 \<le> d \<and> d \<le> daysIn mo y
                         \<and> h < 24 \<and> mi < 60 \<and> sec < 60
                      then Some ((daysFromCivil y mo d * 86400 + h * 3600 + mi * 60 + sec - off)
                                   * 1000000000 + ns)
                      else None)
                 | None \<Rightarrow> None)
         | _ \<Rightarrow> None))"

text \<open>
  \<open>Time.UnixNano\<close> is computed in \<open>int64\<close> and wraps for an instant that is too
  far from the epoch. The zero \<open>time.Time\<close> is midnight of January 1 of the year 1.
  \<open>time.Unix(sec, nsec)\<close> is the instant \<open>nsec\<close> nanoseconds after second \<open>sec\<close>.
\<close>

definition UnixNano :: "int \<Rightarrow> int" where
  "UnixNano t = wrap_int64 t"

definition zeroTime :: int where
  "zeroTime = - 62135596800 * 1000000000"

definition Unix :: "int \<Rightarrow> int \<Rightarrow> int" where
  "Unix sec nsec = sec * 1000000000 + nsec"

subsection \<open>Floating point and formatting\<close>

text \<open>
  The conversions to and from floating point and \<open>fmt.Sprint\<close> are taken as
  parameters: \<open>ParseFloat\<close> is the value \<open>strconv.ParseFloat(s, 64)\<close> returns (0 on a
  syntax error), \<open>FormatFloat\<close> is \<open>strconv.FormatFloat(f, 'E', -1, 64)\<close>,
  \<open>toFloat64\<close> the conversion of an integer to the nearest \<open>float64\<close>,
  \<open>toFloat32\<close> the rounding of \<open>Value.SetFloat\<close> on a \<open>float32\<close>.
\<close>

record golib =
  ParseFloat :: "string \<Rightarrow> rat"
  FormatFloat :: "rat \<Rightarrow> string"
  toFloat64 :: "int \<Rightarrow> rat"
  toFloat32 :: "rat \<Rightarrow> rat"
  Sprint :: "gval \<Rightarrow> string"

text \<open>\<open>strconv.FormatInt\<close> and \<open>strconv.FormatUint\<close> in base 10.\<close>

fun FormatUint :: "nat \<Rightarrow> string" where
  "FormatUint n =
     (if n < 10 then [char_of (48 + n)]
      else FormatUint (n div 10) @ [char_of (48 + n mod 10)])"

declare FormatUint.simps [simp del]

definition FormatInt :: "int \<Rightarrow> string" where
  "FormatInt i = (if i < 0 then CHR ''-'' # FormatUint (nat (- i)) else FormatUint (nat i))"

section \<open>The type coercion layer\<close>

text \<open>
  Each coercion switches on the kind of the dynamic value. \<open>parseInt\<close> keeps the
  value \<open>strconv.ParseInt\<close> returned when the string is not a time either: 0 after a
  syntax error, the nearest bound after a range error.
\<close>

definition parseInt :: "gval \<Rightarrow> int" where
  "parseInt i =
     (case i of
        VInt n \<Rightarrow> n
      | VUint n \<Rightarrow> wrap_int64 n
      | VFloat f \<Rightarrow> int64_of_float f
      | VStr s \<Rightarrow>
          (let (val, err) = ParseInt s
           in if err \<noteq> None
              then (case parseRFC3339 s of Some t \<Rightarrow> UnixNano t | None \<Rightarrow> val)
              else val)
      | VNamedStr s \<Rightarrow>
          (let (val, err) = ParseInt s
           in if err \<noteq> None
              then (case parseRFC3339 s of Some t \<Rightarrow> UnixNano t | None \<Rightarrow> val)
              else val)
      | _ \<Rightarrow> 0)"

definition parseFloat :: "golib \<Rightarrow> gval \<Rightarrow> rat" where
  "parseFloat lib i =
     (case i of
        VInt n \<Rightarrow> toFloat64 lib n
      | VUint n \<Rightarrow> toFloat64 lib n
      | VFloat f \<Rightarrow> f
      | VStr s \<Rightarrow> ParseFloat lib s
      | VNamedStr s \<Rightarrow> ParseFloat lib s
      | _ \<Rightarrow> 0)"

text \<open>
  The case \<open>reflect.Interface\<close> of \<open>parseString\<close> is never taken:
  \<open>reflect.ValueOf\<close> of an interface value has the kind of the value in it.
\<close>

definition parseString :: "golib \<Rightarrow> gval \<Rightarrow> string" where
  "parseString lib i =
     (case i of
        VInt n \<Rightarrow> FormatInt n
      | VUint n \<Rightarrow> FormatUint (nat n)
      | VFloat f \<Rightarrow> FormatFloat lib f
      | VStr s \<Rightarrow> s
      | VNamedStr s \<Rightarrow> s
      | _ \<Rightarrow> Sprint lib i)"

text \<open>
  \<open>parseTime\<close> parses a non-empty value of type \<open>string\<close> (the zero time when it
  does not parse) and takes every other value as nanoseconds; a value of another
  kind, a \<open>json.Number\<close> too, leaves \<open>nano\<close> at 0. Go's \<open>/\<close> and \<open>%\<close> truncate
  towards zero.
\<close>

definition parseTime :: "gval \<Rightarrow> int" where
  "parseTime i =
     (case i of
        VStr s \<Rightarrow>
          (if s \<noteq> [] then (case parseRFC3339 s of Some t \<Rightarrow> t | None \<Rightarrow> zeroTime)
           else Unix 0 0)
      | _ \<Rightarrow>
          (let nano = (case i of
                         VInt n \<Rightarrow> n
                       | VUint n \<Rightarrow> wrap_int64 n
                       | VFloat f \<Rightarrow> int64_of_float f
                       | _ \<Rightarrow> 0)
           in Unix (nano sdiv 1000000000) (nano smod 1000000000)))"

section \<open>The naming convention\<close>

text \<open>
  \<open>titleToSnake\<close> walks the runes with an index. At an upper-case rune that does not
  follow an upper-case one it inserts an underscore in front of it and steps over it;
  every upper-case rune is put in lower case. \<open>lastIsUpper\<close> starts as true, so that
  nothing is inserted in front of the first rune, and no branch sets it back to true
  again after anything but an upper-case rune.
\<close>

function titleToSnake_loop :: "string \<Rightarrow> nat \<Rightarrow> bool \<Rightarrow> string" where
  "titleToSnake_loop r i lastIsUpper =
     (if i < length r then
        (if isUpper (r ! i) then
           (if \<not> lastIsUpper then
              (let r' = take i r @ CHR ''_'' # drop i r;
                   i' = i + 1
               in titleToSnake_loop (r'[i' := toLower (r' ! i')]) (i' + 1) True)
            else titleToSnake_loop (r[i := toLower (r ! i)]) (i + 1) lastIsUpper)
         else titleToSnake_loop r (i + 1) False)
      else r)"
  by pat_completeness auto
termination
  by (relation "measure (\<lambda>(r, i, l). length r - i)") auto

declare titleToSnake_loop.simps [simp del]

definition titleToSnake :: "string \<Rightarrow> string" where
  "titleToSnake s = titleToSnake_loop s 0 True"

definition snakeToTitle :: "string \<Rightarrow> string" where
  "snakeToTitle s = Join (map Title (Split s (CHR ''_''))) []"

text \<open>
  The strings the round trip is claimed for: segments of lower-case letters, none of
  them empty, separated by single underscores.
\<close>

definition lowerSegment :: "string \<Rightarrow> bool" where
  "lowerSegment seg = (seg \<noteq> [] \<and> list_all isLower seg)"

definition isSnake :: "string \<Rightarrow> bool" where
  "isSnake s = list_all lowerSegment (Split s (CHR ''_''))"

text \<open>The number of segments of fewer than two runes, the last segment left out.\<close>

definition shortSegments :: "string list \<Rightarrow> nat" where
  "shortSegments segs = length (filter (\<lambda>seg. length seg < 2) (butlast segs))"

text \<open>
  What the loop of \<open>titleToSnake\<close> makes of the runes from the index on, as a
  recursion on those runes; \<open>titleToSnake_loop_snake_from\<close> below relates the two.
\<close>

fun snake_from :: "string \<Rightarrow> bool \<Rightarrow> string" where
  "snake_from [] l = []"
| "snake_from (c # cs) l =
     (if isUpper c then (if l then [] else [CHR ''_'']) @ toLower c # snake_from cs True
      else c # snake_from cs False)"

section \<open>Destination types and values\<close>

text \<open>
  What \<open>reflect\<close> tells the package about a destination: its type. \<open>TInt b\<close>,
  \<open>TUint b\<close> and \<open>TFloat b\<close> are the integer and float types of \<open>b\<close> bits (\<open>int\<close>
  and \<open>uint\<close> have 64); \<open>TStruct name fields\<close> is a struct type with, for every field,
  its name, the value of the key \<open>inf\<close> of its tag (empty without one) and its type;
  \<open>TTime\<close> is \<open>time.Time\<close>, a struct whose \<open>Type().String()\<close> is \<open>time.Time\<close>;
  \<open>TIface\<close> is \<open>interface{}\<close>; \<open>TOther\<close> is a type of any other kind. Embedded
  fields and recursive types are outside the model.

  A destination is a type and a value of that type; a decode function returns the
  value the destination has after the call, next to the error. Destinations are trees:
  two parts of one destination do not share memory.
\<close>

datatype gtype =
    TInt nat
  | TUint nat
  | TFloat nat
  | TString
  | TPtr gtype
  | TStruct string "(string \<times> string \<times> gtype) list"
  | TTime
  | TSlice gtype
  | TMap gtype gtype
  | TIface
  | TOther

fun zero :: "gtype \<Rightarrow> gval" where
  "zero (TInt b) = VInt 0"
| "zero (TUint b) = VUint 0"
| "zero (TFloat b) = VFloat 0"
| "zero TString = VStr []"
| "zero (TPtr t) = VPtr None"
| "zero (TStruct n fs) = VStruct (map (\<lambda>(name, inf, t). zero t) fs)"
| "zero TTime = VTime zeroTime"
| "zero (TSlice t) = VSlice []"
| "zero (TMap k e) = VMap None"
| "zero TIface = VNil"
| "zero TOther = VOther 0"

text \<open>\<open>Value.SetInt\<close> and \<open>Value.SetUint\<close> keep the low bits that fit the type.\<close>

definition wrap_signed :: "nat \<Rightarrow> int \<Rightarrow> int" where
  "wrap_signed b x = (x + 2 ^ (b - 1)) mod 2 ^ b - 2 ^ (b - 1)"

definition wrap_unsigned :: "nat \<Rightarrow> int \<Rightarrow> int" where
  "wrap_unsigned b x = x mod 2 ^ b"

text \<open>
  A call ends with its result, with an error, or with a panic. \<open>StackOverflow\<close> is the
  end of a recursion that never returns.
\<close>

datatype panic =
    IndexOutOfRange
  | SliceBoundsOutOfRange
  | SetZeroValue
  | InvalidValue
  | NilMap
  | WrongKind
  | UnexportedField
  | TypeAssertion
  | StackOverflow

datatype error = Err string | Panic panic

text \<open>
  A tag set is a Go map from string to string. \<open>range\<close> visits its entries in an
  order the runtime picks: the model keeps the entries as a list with distinct keys,
  in the order of the visit, and looks a key up with \<open>map_of\<close>.
\<close>

type_synonym tags = "(string \<times> string) list"
type_synonym result = "gval \<times> error option"

definition emptyTags :: tags where
  "emptyTags = []"

text \<open>A \<open>for\<close> loop over a list whose body may return an error, which ends the loop.\<close>

fun forEach :: "('a \<Rightarrow> gval \<Rightarrow> result) \<Rightarrow> 'a list \<Rightarrow> gval \<Rightarrow> result" where
  "forEach body [] dst = (dst, None)"
| "forEach body (x # xs) dst =
     (case body x dst of
        (dst', None) \<Rightarrow> forEach body xs dst'
      | (dst', Some e) \<Rightarrow> (dst', Some e))"

text \<open>Reading and writing a field, an element and a map entry through \<open>reflect\<close>.\<close>

fun Field_of :: "gval \<Rightarrow> nat \<Rightarrow> gval" where
  "Field_of (VStruct vs) f = vs ! f"
| "Field_of v f = VNil"

fun setField :: "gval \<Rightarrow> nat \<Rightarrow> gval \<Rightarrow> gval" where
  "setField (VStruct vs) f x = VStruct (vs[f := x])"
| "setField v f x = v"

fun Index :: "gval \<Rightarrow> nat \<Rightarrow> gval" where
  "Index (VSlice vs) i = vs ! i"
| "Index v i = VNil"

fun setIndex :: "gval \<Rightarrow> nat \<Rightarrow> gval \<Rightarrow> gval" where
  "setIndex (VSlice vs) i x = VSlice (vs[i := x])"
| "setIndex v i x = v"

fun Len :: "gval \<Rightarrow> nat" where
  "Len (VSlice vs) = length vs"
| "Len v = 0"

fun SetMapIndex :: "gval \<Rightarrow> gval \<Rightarrow> gval \<Rightarrow> result" where
  "SetMapIndex (VMap (Some m)) k x = (VMap (Some (AList.update k x m)), None)"
| "SetMapIndex v k x = (v, Some (Panic NilMap))"

text \<open>
  The field a column binds to. The first loop of the closure \<open>parse\<close> takes the first
  field whose tag names the column and stops there; when that field cannot be set
  (there is none, or it is not exported) \<open>FieldByName\<close> looks for the field named by
  the naming convention. The tag \<open>-\<close> is a name like any other here.
\<close>

fun firstIndex :: "('a \<Rightarrow> bool) \<Rightarrow> 'a list \<Rightarrow> nat option" where
  "firstIndex P [] = None"
| "firstIndex P (x # xs) =
     (if P x then Some 0 else map_option Suc (firstIndex P xs))"

definition exported :: "string \<Rightarrow> bool" where
  "exported name = (name \<noteq> [] \<and> isUpper (hd name))"

type_synonym field = "string \<times> string \<times> gtype"

definition fieldName :: "field \<Rightarrow> string" where "fieldName fd = fst fd"
definition fieldInf :: "field \<Rightarrow> string" where "fieldInf fd = fst (snd fd)"
definition fieldType :: "field \<Rightarrow> gtype" where "fieldType fd = snd (snd fd)"

definition canSet :: "field list \<Rightarrow> nat option \<Rightarrow> bool" where
  "canSet fs f = (case f of None \<Rightarrow> False | Some i \<Rightarrow> exported (fieldName (fs ! i)))"

definition findField :: "field list \<Rightarrow> string \<Rightarrow> nat option" where
  "findField fs col =
     (let field = firstIndex (\<lambda>fd. hd (Split (fieldInf fd) (CHR '','')) = col) fs;
          field = (if \<not> canSet fs field
                   then firstIndex (\<lambda>fd. fieldName fd = snakeToTitle col) fs else field)
      in if \<not> canSet fs field then None else field)"

fun columnIndex_loop :: "string \<Rightarrow> string list \<Rightarrow> int \<Rightarrow> int" where
  "columnIndex_loop column [] i = - 1"
| "columnIndex_loop column (col # columns) i =
     (if column = col then i else columnIndex_loop column columns (i + 1))"

definition columnIndex :: "string \<Rightarrow> string list \<Rightarrow> int" where
  "columnIndex column columns =
     (if columns = [] then 0 else columnIndex_loop column columns 0)"

definition inColumns :: "string \<Rightarrow> string list \<Rightarrow> bool" where
  "inColumns column columns = (if columns = [] then True else column \<in> set columns)"

section \<open>The decode engine\<close>

text \<open>
  \<open>makePtrDstVal\<close> allocates through nil pointers and returns the value it ends at;
  a pointer that is not nil is returned as it is. The model returns the type and the
  value it ends at, and the function that puts a new value for it back into the
  destination.
\<close>

fun makePtrDstVal :: "gtype \<Rightarrow> gval \<Rightarrow> gtype \<times> gval \<times> (gval \<Rightarrow> gval)" where
  "makePtrDstVal (TPtr t) (VPtr None) =
     (case makePtrDstVal t (zero t) of
        (t', x, put) \<Rightarrow> (t', x, \<lambda>y. VPtr (Some (put y))))"
| "makePtrDstVal t v = (t, v, \<lambda>y. y)"

text \<open>
  \<open>makeSliceDstVal\<close>: \<open>ori := dst\<close> copies the \<open>reflect.Value\<close>, which refers to
  the same slice variable as \<open>dst\<close>; after \<open>dst.Set\<close> both read the new slice, and
  \<open>reflect.Copy(dst, ori)\<close> copies the new slice onto itself. A slice that grows
  therefore holds zero values only.
\<close>

definition makeSliceDstVal :: "gtype \<Rightarrow> gval \<Rightarrow> nat \<Rightarrow> gval" where
  "makeSliceDstVal t dst n =
     (if Len dst < n then VSlice (replicate n (zero t)) else dst)"

lemma size_makePtrDstVal: "size (fst (makePtrDstVal t v)) \<le> size t"
  by (induction t v rule: makePtrDstVal.induct) (auto split: prod.splits)

lemma firstIndex_less: "firstIndex P xs = Some i \<Longrightarrow> i < length xs"
  by (induction xs arbitrary: i) (auto split: if_splits)

lemma findField_less: "findField fs col = Some f \<Longrightarrow> f < length fs"
  by (auto simp: findField_def Let_def split: if_splits dest: firstIndex_less)

lemma size_makePtrDstVal_Ptr:
  "makePtrDstVal t (zero t) = (t', x, put) \<Longrightarrow> size t' \<le> size t"
  using size_makePtrDstVal[of t "zero t"] by simp

lemma size_fieldType: "f < length fs \<Longrightarrow> size (fieldType (fs ! f)) < size (TStruct n fs)"
proof (induction fs arbitrary: f)
  case Nil
  then show ?case by simp
next
  case (Cons a fs)
  show ?case
  proof (cases f)
    case 0
    then show ?thesis by (cases a) (simp add: fieldType_def)
  next
    case (Suc g)
    with Cons.prems Cons.IH[of g] show ?thesis by simp
  qed
qed

text \<open>
  The four decode functions call each other. In \<open>parseSingle\<close>, a destination that is
  a pointer and not nil comes back from \<open>makePtrDstVal\<close> as it went in, so that
  \<open>parseSingle\<close> calls itself with its own arguments and never returns: Go ends the
  program when the stack is exhausted. Every other call goes to a smaller type, or from
  \<open>interface{}\<close> to its map and from there to single values, and the functions are
  total. \<open>vals[i:i+1]\<close> is taken within the length of \<open>vals\<close> (its capacity is not
  modelled).
\<close>

function
  parseSingle :: "golib \<Rightarrow> string list \<Rightarrow> gval list \<Rightarrow> tags \<Rightarrow> gtype \<Rightarrow> gval \<Rightarrow> string list \<Rightarrow> result"
and alignToStruct :: "golib \<Rightarrow> string list \<Rightarrow> gval list \<Rightarrow> tags \<Rightarrow> gtype \<Rightarrow> gval \<Rightarrow> string list \<Rightarrow> result"
and alignToSlice :: "golib \<Rightarrow> string list \<Rightarrow> gval list \<Rightarrow> tags \<Rightarrow> gtype \<Rightarrow> gval \<Rightarrow> string list \<Rightarrow> result"
and alignToMap :: "golib \<Rightarrow> string list \<Rightarrow> gval list \<Rightarrow> tags \<Rightarrow> gtype \<Rightarrow> gval \<Rightarrow> string list \<Rightarrow> result"
where
  "parseSingle lib cols vals tags ty dst columns =
     (if cols = [] then (dst, None)
      else if vals = [] then (dst, Some (Panic IndexOutOfRange))
      else
        (case (if columns \<noteq> [] then
                 (let idx = columnIndex (hd columns) cols
                  in if idx \<ge> 0 then
                       (if nat idx < length vals then Inr (vals ! nat idx)
                        else Inl IndexOutOfRange)
                     else (case map_of tags (hd columns) of
                             Some v \<Rightarrow> Inr (VStr v)
                           | None \<Rightarrow> Inr (hd vals)))
               else Inr (hd vals)) of
           Inl p \<Rightarrow> (dst, Some (Panic p))
         | Inr val \<Rightarrow>
             (case ty of
                TInt b \<Rightarrow> (VInt (wrap_signed b (parseInt val)), None)
              | TUint b \<Rightarrow> (VUint (wrap_unsigned b (wrap_uint64 (parseInt val))), None)
              | TFloat b \<Rightarrow>
                  (VFloat (if b = 32 then toFloat32 lib (parseFloat lib val)
                           else parseFloat lib val), None)
              | TString \<Rightarrow> (VStr (parseString lib val), None)
              | TPtr t \<Rightarrow>
                  (if dst \<noteq> VPtr None then (dst, Some (Panic StackOverflow))
                   else (case makePtrDstVal ty dst of
                           (t', x, put) \<Rightarrow>
                             (case parseSingle lib cols vals tags t' x columns of
                                (x', err) \<Rightarrow> (put x', err))))
              | TStruct n fs \<Rightarrow> alignToStruct lib cols vals tags ty dst columns
              | TTime \<Rightarrow> alignToStruct lib cols vals tags ty dst columns
              | TSlice t \<Rightarrow> alignToSlice lib cols vals tags ty dst columns
              | TMap kt et \<Rightarrow>
                  alignToMap lib cols vals tags ty
                    (if dst = VMap None then VMap (Some []) else dst) columns
              | TIface \<Rightarrow>
                  (if length vals = 1 \<or> length columns = 1 then
                     (if val = VNil then (dst, Some (Panic SetZeroValue)) else (val, None))
                   else alignToMap lib cols vals tags (TMap TString TIface)
                          (VMap (Some [])) columns)
              | TOther \<Rightarrow> (dst, Some (Err ''unrecognized type'')))))"
| "alignToStruct lib cols vals tags ty dst columns =
     (case ty of
        TTime \<Rightarrow>
          (if vals = [] then (dst, Some (Panic IndexOutOfRange))
           else (VTime (parseTime (hd vals)), None))
      | TStruct n fs \<Rightarrow>
          (if length cols \<noteq> length vals
           then (dst, Some (Err ''columns size not equal values size''))
           else
             (let parse = (\<lambda>(col, val) dst.
                    if \<not> inColumns col columns then (dst, None)
                    else (case findField fs col of
                            None \<Rightarrow> (dst, None)
                          | Some f \<Rightarrow>
                              (case parseSingle lib [col] [val] emptyTags
                                      (fieldType (fs ! f)) (Field_of dst f) [] of
                                 (x, err) \<Rightarrow> (setField dst f x, err))))
              in case forEach parse (zip cols vals) dst of
                   (dst', Some e) \<Rightarrow> (dst', Some e)
                 | (dst', None) \<Rightarrow>
                     forEach parse (map (\<lambda>(t, v). (t, VStr v)) tags) dst'))
      | _ \<Rightarrow> (dst, Some (Panic WrongKind)))"
| "alignToSlice lib cols vals tags ty dst columns =
     (case ty of
        TSlice t \<Rightarrow>
          (if columns \<noteq> [] then
             forEach (\<lambda>(i, col) dst.
                 (let idx = columnIndex col cols
                  in case (if idx \<ge> 0 then
                             (if nat idx < length vals then Inr (Some (vals ! nat idx))
                              else Inl IndexOutOfRange)
                           else (case map_of tags col of
                                   Some v \<Rightarrow> Inr (Some (VStr v))
                                 | None \<Rightarrow> Inr None)) of
                       Inl p \<Rightarrow> (dst, Some (Panic p))
                     | Inr None \<Rightarrow> (dst, None)
                     | Inr (Some val) \<Rightarrow>
                         (case parseSingle lib [col] [val] emptyTags t (Index dst i)
                                 [columns ! i] of
                            (x, err) \<Rightarrow> (setIndex dst i x, err))))
               (enumerate 0 columns) (makeSliceDstVal t dst (length columns))
           else
             forEach (\<lambda>i dst.
                 if i < length vals then
                   (case parseSingle lib [cols ! i] [vals ! i] emptyTags t (Index dst i) [] of
                      (x, err) \<Rightarrow> (setIndex dst i x, err))
                 else (dst, Some (Panic SliceBoundsOutOfRange)))
               [0..<length cols] (makeSliceDstVal t dst (length cols)))
      | _ \<Rightarrow> (dst, Some (Panic WrongKind)))"
| "alignToMap lib cols vals tags ty dst columns =
     (case ty of
        TMap kt et \<Rightarrow>
          (if kt \<noteq> TString then (dst, Some (Err ''invalid key type''))
           else if length cols \<noteq> length vals
           then (dst, Some (Err ''columns size not equal values size''))
           else
             (let parse = (\<lambda>(k, v) dst.
                    if \<not> inColumns k columns then (dst, None)
                    else (case parseSingle lib [k] [v] emptyTags et (zero et) [] of
                            (val, Some e) \<Rightarrow> (dst, Some e)
                          | (val, None) \<Rightarrow> SetMapIndex dst (VStr k) val))
              in case forEach parse (zip cols vals) dst of
                   (dst', Some e) \<Rightarrow> (dst', Some e)
                 | (dst', None) \<Rightarrow>
                     forEach parse (map (\<lambda>(t, v). (t, VStr v)) tags) dst'))
      | _ \<Rightarrow> (dst, Some (Panic WrongKind)))"
  by pat_completeness auto
termination
proof (relation "measures [
      (\<lambda>x. case x of
         Inl (Inl (lib, cols, vals, tags, ty, dst, columns)) \<Rightarrow>
           2 * size ty + (if ty = TIface \<and> \<not> (length vals = 1 \<or> length columns = 1) then 1 else 0)
       | Inl (Inr (lib, cols, vals, tags, ty, dst, columns)) \<Rightarrow> 2 * size ty
       | Inr (Inl (lib, cols, vals, tags, ty, dst, columns)) \<Rightarrow> 2 * size ty
       | Inr (Inr (lib, cols, vals, tags, ty, dst, columns)) \<Rightarrow>
           (case ty of TMap kt et \<Rightarrow> 2 * size et + 1 | _ \<Rightarrow> 0)),
      (\<lambda>x. case x of Inl (Inl _) \<Rightarrow> 1 | _ \<Rightarrow> 0)]", goal_cases)
  case 1
  show ?case by simp
qed (auto dest!: size_makePtrDstVal_Ptr dest: size_fieldType[OF findField_less] split: prod.splits)

declare parseSingle.simps [simp del] alignToStruct.simps [simp del]
  alignToSlice.simps [simp del] alignToMap.simps [simp del]

section \<open>The result materializer\<close>

text \<open>
  A series of a query result (\<open>models.Row\<close>): the columns, the rows of values and the
  tags, which may be a nil map.
\<close>

record Row =
  Columns :: "string list"
  Values :: "gval list list"
  Tags :: "tags option"

definition backquote :: char where
  "backquote = char_of (96 :: nat)"

text \<open>
  \<open>ParseResult\<close> takes the destination as an \<open>interface{}\<close>: its dynamic type and
  value. \<open>reflect.Indirect\<close> of a pointer that is not nil is the value it points to,
  which can be set; of anything else it is a value that cannot be set.
\<close>

definition ParseResult :: "golib \<Rightarrow> gtype \<Rightarrow> gval \<Rightarrow> Row \<Rightarrow> string list \<Rightarrow> result" where
  "ParseResult lib dty dst serie columns =
     (let cols = Columns serie;
          vals = Values serie;
          tags = (case Tags serie of None \<Rightarrow> [] | Some m \<Rightarrow> m)
      in if length columns = 1 \<and> map_of tags (columns ! 0) = None
              \<and> \<not> inColumns (columns ! 0) (Columns serie)
         then (dst, Some (Err (''column not exists: '' @ [backquote] @ columns ! 0 @ [backquote])))
         else
           (case (dty, dst) of
              (TPtr t0, VPtr (Some x0)) \<Rightarrow>
                (case makePtrDstVal t0 x0 of
                   (t, dstVal, put) \<Rightarrow>
                     (let toslice = (\<lambda>et dstVal.
                            forEach (\<lambda>(i, vs) dstVal.
                                case parseSingle lib cols vs tags et (Index dstVal i) columns of
                                  (x, err) \<Rightarrow> (setIndex dstVal i x, err))
                              (enumerate 0 vals) dstVal);
                          (dstVal', err) =
                            (case t of
                               TIface \<Rightarrow>
                                 (if vals = [] then (dstVal, None)
                                  else if length vals = 1
                                  then parseSingle lib cols (vals ! 0) tags t dstVal []
                                  else (case toslice TIface
                                               (VSlice (replicate (length vals) VNil)) of
                                          (slice, Some e) \<Rightarrow> (dstVal, Some e)
                                        | (slice, None) \<Rightarrow> (slice, None)))
                             | TSlice et \<Rightarrow>
                                 toslice et (makeSliceDstVal et dstVal (length vals))
                             | _ \<Rightarrow>
                                 (if vals = [] then (dstVal, Some (Panic IndexOutOfRange))
                                  else parseSingle lib cols (vals ! 0) tags t dstVal columns))
                      in (VPtr (Some (put dstVal')), err)))
            | _ \<Rightarrow> (dst, Some (Err ''dst cannot be setted''))))"

section \<open>The encode engine\<close>

text \<open>
  A point of the client library: what \<open>client.NewPoint\<close> is given. Whether
  \<open>NewPoint\<close> builds the point or returns an error is the library's matter, the
  parameter \<open>valid\<close>; with an error it returns a nil pointer, which \<open>ToPoint\<close> returns
  in turn, the error dropped.
\<close>

record Point =
  measurement :: string
  ptTags :: "string \<rightharpoonup> string"
  ptFields :: "string \<rightharpoonup> gval"
  ptTime :: int

definition NewPoint ::
  "(Point \<Rightarrow> bool) \<Rightarrow> string \<Rightarrow> (string \<rightharpoonup> string) \<Rightarrow> (string \<rightharpoonup> gval) \<Rightarrow> int \<Rightarrow> Point option" where
  "NewPoint valid name tags flds t =
     (let p = \<lparr>measurement = name, ptTags = tags, ptFields = flds, ptTime = t\<rparr>
      in if valid p then Some p else None)"

definition HasSuffix :: "string \<Rightarrow> string \<Rightarrow> bool" where
  "HasSuffix s suffix =
     (length suffix \<le> length s \<and> drop (length s - length suffix) s = suffix)"

text \<open>The part of a type name after its last period (all of it without a period).\<close>

definition afterLastDot :: "string \<Rightarrow> string" where
  "afterLastDot name = rev (takeWhile (\<lambda>c. c \<noteq> CHR ''.'') (rev name))"

text \<open>
  The loop of \<open>ToPoint\<close> over the fields, with the two maps and the time it builds.
  \<open>Value.Interface\<close> panics on a field that is not exported, and the type assertion
  on a time field that holds no \<open>time.Time\<close>.
\<close>

fun ToPoint_loop ::
  "golib \<Rightarrow> (field \<times> gval) list \<Rightarrow> (string \<rightharpoonup> string) \<times> (string \<rightharpoonup> gval) \<times> int
     \<Rightarrow> panic + (string \<rightharpoonup> string) \<times> (string \<rightharpoonup> gval) \<times> int" where
  "ToPoint_loop lib [] st = Inr st"
| "ToPoint_loop lib ((ft, fv) # rest) (tags, flds, now) =
     (if fieldInf ft = ''-'' then ToPoint_loop lib rest (tags, flds, now)
      else
        (let tagstr = fieldInf ft
         in if fieldName ft = ''Time'' \<or> tagstr = ''time'' then
              (if \<not> exported (fieldName ft) then Inl UnexportedField
               else (case fv of
                       VTime t \<Rightarrow> ToPoint_loop lib rest (tags, flds, t)
                     | _ \<Rightarrow> Inl TypeAssertion))
            else
              (let name = hd (Split tagstr (CHR '',''));
                   name = (if name = [] then titleToSnake (fieldName ft) else name)
               in if \<not> exported (fieldName ft) then Inl UnexportedField
                  else if HasSuffix tagstr '',tag''
                  then ToPoint_loop lib rest (tags(name \<mapsto> parseString lib fv), flds, now)
                  else ToPoint_loop lib rest (tags, flds(name \<mapsto> fv), now))))"

text \<open>
  \<open>ToPoint\<close> takes the record as an \<open>interface{}\<close>: its dynamic type and value;
  on the nil interface \<open>MethodByName\<close> panics. \<open>reflect.Indirect\<close> follows one
  pointer; a nil pointer gives a value of no kind. \<open>method\<close> is what the method
  \<open>Measurement\<close> of the record returns, when it has one; \<open>now\<close> is what
  \<open>time.Now\<close> returns in the call. A \<open>time.Time\<close> is a struct whose fields are
  not exported.
\<close>

definition ToPoint ::
  "golib \<Rightarrow> (Point \<Rightarrow> bool) \<Rightarrow> int \<Rightarrow> string option \<Rightarrow> gtype \<Rightarrow> gval \<Rightarrow> panic + Point option" where
  "ToPoint lib valid now method ty structure =
     (if structure = VNil then Inl InvalidValue
      else
        (let (typ, val) = (case (ty, structure) of
                             (TPtr t, VPtr (Some x)) \<Rightarrow> (t, x)
                           | (TPtr t, _) \<Rightarrow> (TOther, VNil)
                           | _ \<Rightarrow> (ty, structure))
         in case typ of
              TStruct n fs \<Rightarrow>
                (let measurement = (case method of
                                      Some m \<Rightarrow> m
                                    | None \<Rightarrow> titleToSnake (afterLastDot n))
                 in case ToPoint_loop lib (zip fs (case val of VStruct vs \<Rightarrow> vs | _ \<Rightarrow> []))
                           (Map.empty, Map.empty, now) of
                      Inl p \<Rightarrow> Inl p
                    | Inr (tags, flds, now') \<Rightarrow>
                        Inr (NewPoint valid measurement tags flds now'))
            | TTime \<Rightarrow> Inl UnexportedField
            | _ \<Rightarrow> Inr None))"

text \<open>
  An instance of the library parameters, for evaluating the model on inputs that
  hold no float and no value of another kind.
\<close>

definition plainLib :: golib where
  "plainLib = \<lparr>ParseFloat = (\<lambda>s. 0), FormatFloat = (\<lambda>f. []), toFloat64 = of_int,
               toFloat32 = (\<lambda>f. f), Sprint = (\<lambda>v. [])\<rparr>"

section \<open>Notions the properties are stated with\<close>

text \<open>
  The type under the pointers of a destination type, and whether that is a type for
  which \<open>ParseResult\<close> decodes one row only: neither a slice nor \<open>interface{}\<close>.
\<close>

fun stripPtr :: "gtype \<Rightarrow> gtype" where
  "stripPtr (TPtr t) = stripPtr t"
| "stripPtr t = t"

definition singular :: "gtype \<Rightarrow> bool" where
  "singular t = (case stripPtr t of TSlice et \<Rightarrow> False | TIface \<Rightarrow> False | _ \<Rightarrow> True)"

text \<open>The first test of \<open>ParseResult\<close>: a filter of one name that the test rejects.\<close>

definition filterMissing :: "Row \<Rightarrow> string list \<Rightarrow> bool" where
  "filterMissing serie columns =
     (length columns = 1
      \<and> map_of (case Tags serie of None \<Rightarrow> [] | Some m \<Rightarrow> m) (columns ! 0) = None
      \<and> \<not> inColumns (columns ! 0) (Columns serie))"

text \<open>
  How \<open>ToPoint\<close> reads a field: ignored, a time, marked as a tag, and the key it
  gets in the tag set or the field set.
\<close>

definition ignored :: "field \<Rightarrow> bool" where
  "ignored fd = (fieldInf fd = ''-'')"

definition isTimeField :: "field \<Rightarrow> bool" where
  "isTimeField fd = (fieldName fd = ''Time'' \<or> fieldInf fd = ''time'')"

definition tagMarked :: "field \<Rightarrow> bool" where
  "tagMarked fd = HasSuffix (fieldInf fd) '',tag''"

definition pointKey :: "field \<Rightarrow> string" where
  "pointKey fd =
     (let name = hd (Split (fieldInf fd) (CHR '',''))
      in if name = [] then titleToSnake (fieldName fd) else name)"

definition tagKeys :: "field list \<Rightarrow> string set" where
  "tagKeys fs = pointKey ` {fd \<in> set fs. \<not> ignored fd \<and> \<not> isTimeField fd \<and> tagMarked fd}"

definition fieldKeys :: "field list \<Rightarrow> string set" where
  "fieldKeys fs = pointKey ` {fd \<in> set fs. \<not> ignored fd \<and> \<not> isTimeField fd \<and> \<not> tagMarked fd}"


text \<open>
  Two behaviours of \<open>client.NewPoint\<close>: one that accepts every point, and one
  that rejects a point without fields, as the influxdb library does (its
  \<open>models.NewPoint\<close> returns \<open>ErrPointMustHaveAField\<close> for an empty field set).
\<close>

definition acceptAll :: "Point \<Rightarrow> bool" where
  "acceptAll p = True"


section \<open>Properties of the type coercion layer\<close>

text \<open>
  Claim C7. \<open>parseInt\<close> of the string \<open>2021-01-02T15:04:05Z\<close> is the nanoseconds
  from the Unix epoch to that instant, 1609599845000000000; \<open>parseInt\<close> of the string
  \<open>42\<close> is 42; \<open>parseInt\<close> of the float 3.7 is 3, the fraction being cut off and not
  rounded. The \<open>float64\<close> written 3.7 denotes the rational number
  4165829655317709 / 1125899906842624.
\<close>

theorem C7_parseInt_values:
  "parseInt (VStr ''2021-01-02T15:04:05Z'') = 1609599845000000000 \<and>
   parseInt (VStr ''42'') = 42 \<and>
   parseInt (VFloat (4165829655317709 / 1125899906842624)) = 3"
  by code_simp

section \<open>Properties of the naming convention\<close>

lemma titleToSnake_loop_snake_from:
  "i \<le> length r \<Longrightarrow> titleToSnake_loop r i l = take i r @ snake_from (drop i r) l"
proof (induction r i l rule: titleToSnake_loop.induct)
  case (1 r i l)
  show ?case
  proof (cases "i < length r")
    case False
    with "1.prems" show ?thesis by (subst titleToSnake_loop.simps) simp
  next
    case True
    then have d: "drop i r = r ! i # drop (Suc i) r" by (simp add: Cons_nth_drop_Suc)
    show ?thesis
    proof (cases "isUpper (r ! i)")
      case False
      with True "1.IH"(3) d show ?thesis
        by (subst titleToSnake_loop.simps) (simp add: take_Suc_conv_app_nth)
    next
      case up: True
      show ?thesis
      proof (cases l)
        case True
        with up \<open>i < length r\<close> "1.IH"(2) d show ?thesis
          by (subst titleToSnake_loop.simps)
            (simp add: take_Suc_conv_app_nth upd_conv_take_nth_drop)
      next
        case False
        define r' where "r' = take i r @ CHR ''_'' # drop i r"
        have len: "length r' = Suc (length r)" using \<open>i < length r\<close> by (simp add: r'_def)
        have nth: "r' ! (i + 1) = r ! i" using \<open>i < length r\<close>
          by (simp add: r'_def nth_append d)
        have tk: "take (Suc (Suc i)) (r'[Suc i := toLower (r' ! Suc i)]) = take i r @ [CHR ''_'', toLower (r ! i)]"
          using \<open>i < length r\<close> nth by (simp add: r'_def d list_update_append take_Suc_conv_app_nth)
        have dr: "drop (Suc (Suc i)) r' = drop (Suc i) r"
          using \<open>i < length r\<close> by (simp add: r'_def d)
        have "titleToSnake_loop r i l = titleToSnake_loop (r'[i + 1 := toLower (r' ! (i + 1))]) (i + 1 + 1) True"
          using up False \<open>i < length r\<close> by (subst titleToSnake_loop.simps) (simp add: r'_def Let_def)
        also have "\<dots> = take (i + 1 + 1) (r'[i + 1 := toLower (r' ! (i + 1))]) @ snake_from (drop (i + 1 + 1) (r'[i + 1 := toLower (r' ! (i + 1))])) True"
          using "1.IH"(1)[OF \<open>i < length r\<close> up _ r'_def refl] False len \<open>i < length r\<close> by simp
        also have "\<dots> = take i r @ snake_from (drop i r) l"
          using up False by (simp add: tk dr d)
        finally show ?thesis .
      qed
    qed
  qed
qed

lemma isLower_not_isUpper: "isLower c \<Longrightarrow> \<not> isUpper c"
  by (simp add: isLower_def isUpper_def)

lemma isLower_not_isSeparator: "isLower c \<Longrightarrow> \<not> isSeparator c"
  by (simp add: isSeparator_def)

lemma of_char_toTitle:
  assumes "isLower c"
  shows "(of_char (toTitle c) :: nat) = of_char c - 32"
proof -
  have "(of_char c :: nat) - 32 < 256" using assms unfolding isLower_def by linarith
  then show ?thesis using assms by (simp add: toTitle_def)
qed

lemma isUpper_toTitle: "isLower c \<Longrightarrow> isUpper (toTitle c)"
  unfolding isUpper_def by (simp only: of_char_toTitle) (unfold isLower_def, linarith)

lemma toLower_toTitle:
  assumes "isLower c"
  shows "toLower (toTitle c) = c"
proof -
  have "(of_char c :: nat) - 32 + 32 = of_char c" using assms unfolding isLower_def by linarith
  then show ?thesis
    using assms by (simp add: toLower_def isUpper_toTitle of_char_toTitle)
qed

lemma Title_loop_lower:
  "\<not> isSeparator p \<Longrightarrow> list_all isLower cs \<Longrightarrow> Title_loop p cs = cs"
  by (induction cs arbitrary: p) (simp_all add: isLower_not_isSeparator)

lemma Title_lowerSegment:
  "lowerSegment seg \<Longrightarrow> Title seg = toTitle (hd seg) # tl seg"
  by (cases seg) (simp_all add: lowerSegment_def Title_def isSeparator_def isDigit_def isLower_def isUpper_def
      Title_loop_lower isLower_not_isSeparator)

lemma snake_from_lower:
  "list_all isLower cs \<Longrightarrow> snake_from (cs @ rest) l = cs @ snake_from rest (if cs = [] then l else False)"
  by (induction cs arbitrary: l) (simp_all add: isLower_not_isUpper)

lemma snake_from_Title:
  assumes "lowerSegment seg"
  shows "snake_from (Title seg @ rest) l =
           (if l then [] else [CHR ''_'']) @ seg @ snake_from rest (length seg < 2)"
proof -
  from assms obtain c cs where seg: "seg = c # cs" and c: "isLower c" and cs: "list_all isLower cs"
    by (cases seg) (auto simp: lowerSegment_def)
  have "snake_from (Title seg @ rest) l = (if l then [] else [CHR ''_'']) @ c # snake_from (cs @ rest) True"
    using assms c by (simp add: Title_lowerSegment seg isUpper_toTitle toLower_toTitle)
  also have "snake_from (cs @ rest) True = cs @ snake_from rest (cs = [])"
    using cs by (simp add: snake_from_lower)
  finally show ?thesis by (auto simp: seg)
qed

lemma Join_nil: "Join segs [] = concat segs"
  by (induction segs "[]::string" rule: Join.induct) simp_all

lemma Join_Cons_Cons: "Join ((a # seg) # segs) sep = a # Join (seg # segs) sep"
  by (cases segs) simp_all

lemma Join_Nil_Cons: "Join ([] # seg # segs) sep = sep @ Join (seg # segs) sep"
  by simp

lemma Split_not_Nil: "Split s c \<noteq> []"
  by (induction s) (simp_all split: list.splits)

lemma Join_Split: "Join (Split s c) [c] = s"
proof (induction s)
  case Nil
  show ?case by simp
next
  case (Cons a s)
  show ?case
  proof (cases "a = c")
    case True
    with Cons Split_not_Nil[of s c] show ?thesis by (cases "Split s c") simp_all
  next
    case False
    with Cons Split_not_Nil[of s c] show ?thesis
      by (cases "Split s c") (simp_all add: Join_Cons_Cons del: Join.simps)
  qed
qed

lemma snake_from_segments:
  "list_all lowerSegment segs \<Longrightarrow> list_all (\<lambda>seg. 2 \<le> length seg) (butlast segs) \<Longrightarrow>
   snake_from (concat (map Title segs)) l =
     (if l \<or> segs = [] then [] else [CHR ''_'']) @ Join segs [CHR ''_'']"
proof (induction segs arbitrary: l)
  case Nil
  show ?case by simp
next
  case (Cons seg segs)
  show ?case
  proof (cases segs)
    case Nil
    with Cons.prems show ?thesis
      using snake_from_Title[of seg "[]" l] by simp
  next
    case (Cons seg' segs')
    with Cons.prems Cons.IH[of "False"] show ?thesis
      using snake_from_Title[of seg "concat (map Title segs)" l] by auto
  qed
qed

lemma length_snake_from_segments:
  "list_all lowerSegment segs \<Longrightarrow>
   length (snake_from (concat (map Title segs)) l) + shortSegments segs =
     (if l \<or> segs = [] then 0 else 1) + length (Join segs [CHR ''_''])"
proof (induction segs arbitrary: l)
  case Nil
  show ?case by (simp add: shortSegments_def)
next
  case (Cons seg segs)
  from Cons.prems have seg: "lowerSegment seg" and segs: "list_all lowerSegment segs" by simp_all
  show ?case
  proof (cases segs)
    case Nil
    then show ?thesis using snake_from_Title[OF seg, of "[]" l] by (simp add: shortSegments_def)
  next
    case (Cons seg' rest)
    have sh: "shortSegments (seg # segs) = (if length seg < 2 then 1 else 0) + shortSegments segs"
      using Cons by (simp add: shortSegments_def)
    have j: "length (Join (seg # segs) [CHR ''_'']) = length seg + 1 + length (Join segs [CHR ''_''])"
      using Cons by simp
    have "length (snake_from (concat (map Title (seg # segs))) l) =
            (if l then 0 else 1) + length seg + length (snake_from (concat (map Title segs)) (length seg < 2))"
      using snake_from_Title[OF seg, of "concat (map Title segs)" l] by simp
    with Cons.IH[OF segs, of "length seg < 2"] sh j Cons show ?thesis by auto
  qed
qed

text \<open>
  Claim C2, as amended. For a snake-case string \<open>s\<close> (segments of lower-case
  letters, none empty, separated by single underscores), the round trip
  \<open>titleToSnake (snakeToTitle s) = s\<close> holds if and only if every segment but the
  last has at least two letters. A segment of one letter becomes a single upper-case
  rune, and \<open>titleToSnake\<close> inserts no underscore between two upper-case runes in
  a row.
\<close>

theorem C2_roundtrip:
  assumes "isSnake s"
  shows "titleToSnake (snakeToTitle s) = s \<longleftrightarrow>
         list_all (\<lambda>seg. 2 \<le> length seg) (butlast (Split s (CHR ''_'')))"
proof
  assume c: "list_all (\<lambda>seg. 2 \<le> length seg) (butlast (Split s (CHR ''_'')))"
  have "titleToSnake (snakeToTitle s) = snake_from (concat (map Title (Split s (CHR ''_'')))) True"
    by (simp add: titleToSnake_def snakeToTitle_def titleToSnake_loop_snake_from Join_nil)
  also have "\<dots> = Join (Split s (CHR ''_'')) [CHR ''_'']"
    using assms c by (simp add: snake_from_segments isSnake_def)
  also have "\<dots> = s" by (rule Join_Split)
  finally show "titleToSnake (snakeToTitle s) = s" .
next
  assume r: "titleToSnake (snakeToTitle s) = s"
  have "titleToSnake (snakeToTitle s) = snake_from (concat (map Title (Split s (CHR ''_'')))) True"
    by (simp add: titleToSnake_def snakeToTitle_def titleToSnake_loop_snake_from Join_nil)
  with r have "length (snake_from (concat (map Title (Split s (CHR ''_'')))) True) = length s" by simp
  moreover have "length (snake_from (concat (map Title (Split s (CHR ''_'')))) True)
                  + shortSegments (Split s (CHR ''_'')) = length (Join (Split s (CHR ''_'')) [CHR ''_''])"
    using length_snake_from_segments[of "Split s (CHR ''_'')" True] assms by (simp add: isSnake_def)
  ultimately have "shortSegments (Split s (CHR ''_'')) = 0" by (simp add: Join_Split)
  then have "filter (\<lambda>seg. length seg < 2) (butlast (Split s (CHR ''_''))) = []"
    by (simp add: shortSegments_def)
  then show "list_all (\<lambda>seg. 2 \<le> length seg) (butlast (Split s (CHR ''_'')))"
    by (auto simp: filter_empty_conv list_all_iff not_less)
qed

theorem C2_roundtrip_witness:
  "isSnake ''measurement_name'' \<and>
   list_all (\<lambda>seg. 2 \<le> length seg) (butlast (Split ''measurement_name'' (CHR ''_''))) \<and>
   titleToSnake (snakeToTitle ''measurement_name'') = ''measurement_name''"
proof -
  have a: "isSnake ''measurement_name''" by code_simp
  have b: "list_all (\<lambda>seg. 2 \<le> length seg) (butlast (Split ''measurement_name'' (CHR ''_'')))"
    by code_simp
  from C2_roundtrip[OF a] b
  have c: "titleToSnake (snakeToTitle ''measurement_name'') = ''measurement_name''" by blast
  from a b c show ?thesis by (intro conjI)
qed

text \<open>
  Claim C2, as stated, fails: \<open>a_b\<close> is in snake case, its title form is \<open>AB\<close>, and
  \<open>titleToSnake\<close> gives \<open>ab\<close> back.
\<close>

theorem C2_counterexample:
  "isSnake ''a_b'' \<and> titleToSnake (snakeToTitle ''a_b'') = ''ab'' \<and>
   titleToSnake (snakeToTitle ''a_b'') \<noteq> ''a_b''"
  by code_simp

section \<open>Properties of the decode engine\<close>

lemma columnIndex_loop_notin: "name \<notin> set cols \<Longrightarrow> columnIndex_loop name cols i = - 1"
  by (induction cols arbitrary: i) simp_all

lemma columnIndex_notin: "cols \<noteq> [] \<Longrightarrow> name \<notin> set cols \<Longrightarrow> columnIndex name cols = - 1"
  by (simp add: columnIndex_def columnIndex_loop_notin)

lemma forEach_noop:
  "(\<And>x d. x \<in> set xs \<Longrightarrow> body x d = (d, None)) \<Longrightarrow> forEach body xs dst = (dst, None)"
  by (induction xs arbitrary: dst) simp_all

lemma forEach_single:
  assumes "\<And>y d. y \<in> set pre \<union> set post \<Longrightarrow> body y d = (d, None)"
  shows "forEach body (pre @ x # post) dst = body x dst"
  using assms
proof (induction pre arbitrary: dst)
  case Nil
  then have "\<And>d. forEach body post d = (d, None)" by (intro forEach_noop) simp
  then show ?case by (cases "body x dst") (auto split: option.splits)
next
  case (Cons a pre)
  then show ?case by simp
qed

lemma tags_split:
  assumes "map_of tags name = Some v" "distinct (map fst tags)"
  shows "\<exists>pre post. tags = pre @ (name, v) # post \<and> name \<notin> fst ` (set pre \<union> set post)"
proof -
  from assms(1) have "(name, v) \<in> set tags" by (rule map_of_SomeD)
  then obtain pre post where t: "tags = pre @ (name, v) # post" by (auto dest: split_list)
  with assms(2) have "name \<notin> fst ` (set pre \<union> set post)" by auto
  with t show ?thesis by blast
qed

text \<open>
  Claim C1, evaluated on the code. The field \<open>Secret\<close> carries the ignore marker
  \<open>-\<close>; the column \<open>secret\<close> matches it by the naming convention, no filter is
  given, and the decode call overwrites the field: the closure \<open>parse\<close> of
  \<open>alignToStruct\<close> never looks for the marker, which only \<open>ToPoint\<close> tests.
  A column named \<open>-\<close> matches the field by its tag, under the filter of that name
  as well.
\<close>

theorem C1_ignored_field_overwritten:
  "ParseResult lib (TPtr (TStruct ''T'' [(''Secret'', ''-'', TString)]))
     (VPtr (Some (VStruct [VStr ''keep''])))
     \<lparr>Columns = [''secret''], Values = [[VStr ''x'']], Tags = None\<rparr> []
   = (VPtr (Some (VStruct [VStr ''x''])), None) \<and>
   ParseResult lib (TPtr (TStruct ''T'' [(''Secret'', ''-'', TString)]))
     (VPtr (Some (VStruct [VStr ''keep''])))
     \<lparr>Columns = [''-''], Values = [[VStr ''y'']], Tags = None\<rparr> [''-'']
   = (VPtr (Some (VStruct [VStr ''y''])), None)"
  by code_simp

text \<open>
  Claim C6, as amended. A row whose number of values differs from the number of
  columns makes \<open>alignToStruct\<close> on a record that is not a timestamp, and
  \<open>alignToMap\<close> on a mapping with string keys, return the error
  \<open>columns size not equal values size\<close>, whatever the filter, and so does a decode
  call (\<open>parseSingle\<close>) without filter on such a destination, for a row with at least
  one column and one value; the record is left as it was, a nil map has been made
  empty. The other destination shapes are not tested.
\<close>

theorem C6_size_mismatch:
  assumes "length cols \<noteq> length vals"
  shows "alignToStruct lib cols vals tags (TStruct n fs) dst columns =
           (dst, Some (Err ''columns size not equal values size'')) \<and>
         alignToMap lib cols vals tags (TMap TString et) dst columns =
           (dst, Some (Err ''columns size not equal values size'')) \<and>
         (cols \<noteq> [] \<and> vals \<noteq> [] \<longrightarrow>
            parseSingle lib cols vals tags (TStruct n fs) dst [] =
              (dst, Some (Err ''columns size not equal values size'')) \<and>
            parseSingle lib cols vals tags (TMap TString et) dst [] =
              (if dst = VMap None then VMap (Some []) else dst,
               Some (Err ''columns size not equal values size'')))"
  using assms
  by (simp add: alignToStruct.simps alignToMap.simps parseSingle.simps[of _ _ _ _ "TStruct n fs"]
      parseSingle.simps[of _ _ _ _ "TMap TString et"])

theorem C6_size_mismatch_witness:
  "length [''a'', ''b''] \<noteq> length [VInt 5] \<and>
   [''a'', ''b''] \<noteq> [] \<and> [VInt 5] \<noteq> [] \<and>
   alignToStruct plainLib [''a'', ''b''] [VInt 5] [] (TStruct ''T'' [(''A'', [], TInt 64)])
       (VStruct [VInt 0]) [] =
     (VStruct [VInt 0], Some (Err ''columns size not equal values size'')) \<and>
   parseSingle plainLib [''a'', ''b''] [VInt 5] [] (TMap TString TIface) (VMap None) [] =
     (VMap (Some []), Some (Err ''columns size not equal values size''))"
proof -
  have h: "length [''a'', ''b''] \<noteq> length [VInt 5]" by simp
  have h1: "[''a'', ''b''] \<noteq> []" and h2: "[VInt 5] \<noteq> []" by simp_all
  from C6_size_mismatch[OF h, of plainLib "[]" "''T''" "[(''A'', [], TInt 64)]"
      "VStruct [VInt 0]" "[]" TIface]
  have a: "alignToStruct plainLib [''a'', ''b''] [VInt 5] [] (TStruct ''T'' [(''A'', [], TInt 64)])
       (VStruct [VInt 0]) [] =
     (VStruct [VInt 0], Some (Err ''columns size not equal values size''))"
    by blast
  from C6_size_mismatch[OF h, of plainLib "[]" "''T''" "[]" "VMap None" "[]" TIface]
  have b: "parseSingle plainLib [''a'', ''b''] [VInt 5] [] (TMap TString TIface) (VMap None) [] =
     (VMap (Some []), Some (Err ''columns size not equal values size''))"
    by simp
  from h h1 h2 a b show ?thesis by (intro conjI)
qed

text \<open>
  Claim C6, as stated, fails: for an integer destination a row of one value under two
  columns is decoded without error.
\<close>

theorem C6_counterexample:
  "ParseResult plainLib (TPtr (TInt 64)) (VPtr (Some (VInt 0)))
     \<lparr>Columns = [''a'', ''b''], Values = [[VInt 5]], Tags = None\<rparr> []
   = (VPtr (Some (VInt 5)), None)"
  by code_simp

text \<open>
  A decode call whose filter names a tag that is no column, on a row with at least one
  column and one value, takes the value of the tag.
\<close>

lemma parseSingle_tag_scalar:
  assumes "cols \<noteq> []" "vals \<noteq> []" "name \<notin> set cols" "map_of tags name = Some v"
  shows "parseSingle lib cols vals tags (TInt b) dst [name] =
           (VInt (wrap_signed b (parseInt (VStr v))), None)"
    and "parseSingle lib cols vals tags (TUint b) dst [name] =
           (VUint (wrap_unsigned b (wrap_uint64 (parseInt (VStr v)))), None)"
    and "parseSingle lib cols vals tags (TFloat b) dst [name] =
           (VFloat (if b = 32 then toFloat32 lib (parseFloat lib (VStr v))
                    else parseFloat lib (VStr v)), None)"
    and "parseSingle lib cols vals tags TString dst [name] = (VStr (parseString lib (VStr v)), None)"
  using assms by (subst parseSingle.simps, simp add: columnIndex_notin)+

lemma parseSingle_tag_record:
  assumes "cols \<noteq> []" "vals \<noteq> []" "name \<notin> set cols" "map_of tags name = Some v"
    and len: "length cols = length vals" and dist: "distinct (map fst tags)"
  shows "parseSingle lib cols vals tags (TStruct n fs) dst [name] =
           (case findField fs name of
              None \<Rightarrow> (dst, None)
            | Some f \<Rightarrow>
                (case parseSingle lib [name] [VStr v] emptyTags (fieldType (fs ! f)) (Field_of dst f) [] of
                   (x, err) \<Rightarrow> (setField dst f x, err)))"
proof -
  define parse where "parse = (\<lambda>(col, val) dst.
                    if \<not> inColumns col [name] then (dst, None)
                    else (case findField fs col of
                            None \<Rightarrow> (dst, None)
                          | Some f \<Rightarrow>
                              (case parseSingle lib [col] [val] emptyTags
                                      (fieldType (fs ! f)) (Field_of dst f) [] of
                                 (x, err) \<Rightarrow> (setField dst f x, err))))"
  have skip: "\<And>col val d. col \<noteq> name \<Longrightarrow> parse (col, val) d = (d, None)"
    by (simp add: parse_def inColumns_def)
  have "parseSingle lib cols vals tags (TStruct n fs) dst [name] =
          alignToStruct lib cols vals tags (TStruct n fs) dst [name]"
    using assms by (subst parseSingle.simps) (simp add: columnIndex_notin)
  also have "\<dots> = (case forEach parse (zip cols vals) dst of
                   (dst', Some e) \<Rightarrow> (dst', Some e)
                 | (dst', None) \<Rightarrow> forEach parse (map (\<lambda>(t, v). (t, VStr v)) tags) dst')"
    using len by (subst alignToStruct.simps) (simp add: parse_def Let_def)
  also have "forEach parse (zip cols vals) dst = (dst, None)"
  proof (rule forEach_noop)
    fix x d assume "x \<in> set (zip cols vals)"
    then have "fst x \<in> set cols" using set_zip_leftD[of "fst x" "snd x" cols vals] by simp
    with assms(3) have "fst x \<noteq> name" by auto
    then show "parse x d = (d, None)" using skip[of "fst x" "snd x" d] by simp
  qed
  also have "(case (dst, None :: error option) of
                   (dst', Some e) \<Rightarrow> (dst', Some e)
                 | (dst', None) \<Rightarrow> forEach parse (map (\<lambda>(t, v). (t, VStr v)) tags) dst')
             = forEach parse (map (\<lambda>(t, v). (t, VStr v)) tags) dst" by simp
  also have "\<dots> = parse (name, VStr v) dst"
  proof -
    from tags_split[OF assms(4) dist] obtain pre post where
      t: "tags = pre @ (name, v) # post" and n: "name \<notin> fst ` (set pre \<union> set post)" by blast
    have "forEach parse (map (\<lambda>(t, v). (t, VStr v)) pre @ (name, VStr v) # map (\<lambda>(t, v). (t, VStr v)) post) dst
            = parse (name, VStr v) dst"
    proof (rule forEach_single)
      fix y d assume "y \<in> set (map (\<lambda>(t, v). (t, VStr v)) pre) \<union> set (map (\<lambda>(t, v). (t, VStr v)) post)"
      then have "fst y \<in> fst ` (set pre \<union> set post)" by force
      with n have "fst y \<noteq> name" by auto
      then show "parse y d = (d, None)" using skip[of "fst y" "snd y" d] by simp
    qed
    then show ?thesis by (simp add: t)
  qed
  also have "\<dots> = (case findField fs name of
              None \<Rightarrow> (dst, None)
            | Some f \<Rightarrow>
                (case parseSingle lib [name] [VStr v] emptyTags (fieldType (fs ! f)) (Field_of dst f) [] of
                   (x, err) \<Rightarrow> (setField dst f x, err)))"
    by (simp add: parse_def inColumns_def)
  finally show ?thesis .
qed

text \<open>
  Claim C8, as amended. For a result with at least one column, whose tag set has the
  key \<open>name\<close> (\<open>region\<close>, say) while its columns do not, decoding a row with at least
  one value with the filter of that one name takes the source value from the tag set:
  an integer, float or string destination receives the coerced tag value, and a record
  destination, for a row with as many values as columns, binds the field that matches
  the name from the tag value, and no other field.
\<close>

theorem C8_filter_on_tag:
  assumes "cols \<noteq> []" "vals \<noteq> []" "name \<notin> set cols" "map_of tags name = Some v"
  shows "parseSingle lib cols vals tags (TInt b) dst [name] =
           (VInt (wrap_signed b (parseInt (VStr v))), None) \<and>
         parseSingle lib cols vals tags (TUint b) dst [name] =
           (VUint (wrap_unsigned b (wrap_uint64 (parseInt (VStr v)))), None) \<and>
         parseSingle lib cols vals tags (TFloat b) dst [name] =
           (VFloat (if b = 32 then toFloat32 lib (parseFloat lib (VStr v))
                    else parseFloat lib (VStr v)), None) \<and>
         parseSingle lib cols vals tags TString dst [name] =
           (VStr (parseString lib (VStr v)), None) \<and>
         (length cols = length vals \<and> distinct (map fst tags) \<longrightarrow>
          parseSingle lib cols vals tags (TStruct n fs) dst [name] =
            (case findField fs name of
               None \<Rightarrow> (dst, None)
             | Some f \<Rightarrow>
                 (case parseSingle lib [name] [VStr v] emptyTags (fieldType (fs ! f))
                         (Field_of dst f) [] of
                    (x, err) \<Rightarrow> (setField dst f x, err))))"
  using parseSingle_tag_scalar[OF assms] parseSingle_tag_record[OF assms]
  by simp

theorem C8_filter_on_tag_witness:
  "[''host''] \<noteq> [] \<and> [VStr ''a''] \<noteq> [] \<and> ''region'' \<notin> set [''host''] \<and>
   map_of [(''region'', ''eu'')] ''region'' = Some ''eu'' \<and>
   length [''host''] = length [VStr ''a''] \<and> distinct (map fst [(''region'', ''eu'')]) \<and>
   parseSingle plainLib [''host''] [VStr ''a''] [(''region'', ''eu'')] TString (VStr [])
       [''region''] = (VStr ''eu'', None) \<and>
   parseSingle plainLib [''host''] [VStr ''a''] [(''region'', ''eu'')]
       (TStruct ''T'' [(''Host'', [], TString), (''Region'', [], TString)])
       (VStruct [VStr [], VStr []]) [''region''] = (VStruct [VStr [], VStr ''eu''], None)"
proof -
  have h1: "[''host''] \<noteq> []" and h2: "[VStr ''a''] \<noteq> []"
    and h3: "''region'' \<notin> set [''host'']"
    and h4: "map_of [(''region'', ''eu'')] ''region'' = Some ''eu''"
    and h5: "length [''host''] = length [VStr ''a'']"
    and h6: "distinct (map fst [(''region'', ''eu'')])"
    by simp_all
  have f: "findField [(''Host'', [], TString), (''Region'', [], TString)] ''region'' = Some 1"
    by code_simp
  have g: "parseSingle plainLib [''region''] [VStr ''eu''] emptyTags TString (VStr []) [] =
             (VStr ''eu'', None)"
    by code_simp
  note w = C8_filter_on_tag[OF h1 h2 h3 h4, of plainLib]
  from w[of 64 "VStr []" "''T''" "[]"]
  have a: "parseSingle plainLib [''host''] [VStr ''a''] [(''region'', ''eu'')] TString (VStr [])
       [''region''] = (VStr ''eu'', None)"
    by (simp add: parseString_def)
  from w[of 64 "VStruct [VStr [], VStr []]" "''T''"
      "[(''Host'', [], TString), (''Region'', [], TString)]"] h5 h6
  have b: "parseSingle plainLib [''host''] [VStr ''a''] [(''region'', ''eu'')]
       (TStruct ''T'' [(''Host'', [], TString), (''Region'', [], TString)])
       (VStruct [VStr [], VStr []]) [''region''] = (VStruct [VStr [], VStr ''eu''], None)"
    by (simp add: f g fieldType_def)
  from h1 h2 h3 h4 h5 h6 a b show ?thesis by (intro conjI)
qed

text \<open>
  Claim C8, as stated, fails for a result without columns: \<open>parseSingle\<close> returns at
  once for an empty list of columns, and the destination keeps its value.
\<close>

theorem C8_counterexample:
  "ParseResult plainLib (TPtr TString) (VPtr (Some (VStr ''old'')))
     \<lparr>Columns = [], Values = [[]], Tags = Some [(''region'', ''eu'')]\<rparr> [''region'']
   = (VPtr (Some (VStr ''old'')), None)"
  by code_simp

section \<open>Properties of the result materializer\<close>

lemma stripPtr_makePtrDstVal: "stripPtr (fst (makePtrDstVal t v)) = stripPtr t"
  by (induction t v rule: makePtrDstVal.induct) (auto split: prod.splits)

lemma singular_makePtrDstVal:
  assumes "singular t0" "makePtrDstVal t0 x0 = (t, x, put)"
  shows "t \<noteq> TIface" "t \<noteq> TSlice et"
proof -
  from assms(2) stripPtr_makePtrDstVal[of t0 x0] have "stripPtr t = stripPtr t0" by simp
  with assms(1) show "t \<noteq> TIface" "t \<noteq> TSlice et"
    by (auto simp: singular_def split: gtype.splits)
qed

lemma ParseResult_singular:
  assumes "singular t0" "\<not> filterMissing serie columns"
    and "makePtrDstVal t0 x0 = (t, x, put)"
  shows "ParseResult lib (TPtr t0) (VPtr (Some x0)) serie columns =
           (if Values serie = [] then (VPtr (Some (put x)), Some (Panic IndexOutOfRange))
            else (case parseSingle lib (Columns serie) (Values serie ! 0)
                         (case Tags serie of None \<Rightarrow> [] | Some m \<Rightarrow> m) t x columns of
                    (x', err) \<Rightarrow> (VPtr (Some (put x')), err)))"
proof -
  from singular_makePtrDstVal[OF assms(1,3)] have t: "t \<noteq> TIface" "\<And>et. t \<noteq> TSlice et" by auto
  from assms(2) have nm: "\<not> (length columns = 1
      \<and> map_of (case Tags serie of None \<Rightarrow> [] | Some m \<Rightarrow> m) (columns ! 0) = None
      \<and> \<not> inColumns (columns ! 0) (Columns serie))" by (simp add: filterMissing_def)
  show ?thesis
    using t nm assms(3)
    by (cases t) (auto simp: ParseResult_def Let_def split: prod.splits)
qed

lemma filterMissing_Values [simp]:
  "filterMissing (serie\<lparr>Values := vs\<rparr>) columns = filterMissing serie columns"
  by (simp add: filterMissing_def)

lemma ParseResult_filterMissing:
  "filterMissing serie columns \<Longrightarrow>
   ParseResult lib dty dst serie columns =
     (dst, Some (Err (''column not exists: '' @ [backquote] @ columns ! 0 @ [backquote])))"
  by (simp add: ParseResult_def filterMissing_def)

lemma ParseResult_not_settable:
  "\<not> filterMissing serie columns \<Longrightarrow> \<not> (\<exists>t0 x0. dty = TPtr t0 \<and> dst = VPtr (Some x0)) \<Longrightarrow>
   ParseResult lib dty dst serie columns = (dst, Some (Err ''dst cannot be setted''))"
  by (auto simp: ParseResult_def filterMissing_def Let_def split: gtype.splits gval.splits option.splits)

text \<open>
  For a result with at least one column, a filter of one name that is neither a column
  nor a tag is rejected with the error, and the destination is returned as it was.
\<close>

lemma ParseResult_column_not_exists:
  assumes "Columns serie \<noteq> []" "name \<notin> set (Columns serie)"
    and "map_of (case Tags serie of None \<Rightarrow> [] | Some m \<Rightarrow> m) name = None"
  shows "ParseResult lib dty dst serie [name] =
           (dst, Some (Err (''column not exists: '' @ [backquote] @ name @ [backquote])))"
proof -
  from assms have "filterMissing serie [name]"
    by (simp add: filterMissing_def inColumns_def)
  then show ?thesis using ParseResult_filterMissing[of serie "[name]"] by simp
qed

text \<open>
  Claim C5, evaluated on the code. The result has no columns and no tags, so the name
  \<open>x\<close> of the filter is neither a column nor a tag; \<open>inColumns\<close> answers true for an
  empty list of columns, the test passes, and the call returns without error.
\<close>

theorem C5_no_columns_no_error:
  "filterMissing \<lparr>Columns = [], Values = [[]], Tags = None\<rparr> [''x''] = False \<and>
   ParseResult lib (TPtr (TInt 64)) (VPtr (Some (VInt 7)))
     \<lparr>Columns = [], Values = [[]], Tags = None\<rparr> [''x''] = (VPtr (Some (VInt 7)), None)"
  by (simp add: ParseResult_def filterMissing_def inColumns_def parseSingle.simps)

text \<open>
  Claim C9. For a destination whose type under its pointers is neither a slice nor
  \<open>interface{}\<close>, \<open>ParseResult\<close> on a result with the rows \<open>r # rs\<close> returns what
  it returns on the result with the row \<open>r\<close> alone, destination and error: the rows
  after the first have no effect. When the destination can be set and the filter
  passes the first test, that is the first row decoded into the destination.
\<close>

theorem C9_first_row_only:
  assumes "singular dty"
  shows "ParseResult lib dty dst (serie\<lparr>Values := r # rs\<rparr>) columns =
           ParseResult lib dty dst (serie\<lparr>Values := [r]\<rparr>) columns \<and>
         (\<forall>t0 x0 t x put.
            dty = TPtr t0 \<and> dst = VPtr (Some x0) \<and> \<not> filterMissing serie columns \<and>
            makePtrDstVal t0 x0 = (t, x, put) \<longrightarrow>
            ParseResult lib dty dst (serie\<lparr>Values := r # rs\<rparr>) columns =
              (case parseSingle lib (Columns serie) r
                      (case Tags serie of None \<Rightarrow> [] | Some m \<Rightarrow> m) t x columns of
                 (x', err) \<Rightarrow> (VPtr (Some (put x')), err)))"
proof
  show "ParseResult lib dty dst (serie\<lparr>Values := r # rs\<rparr>) columns =
           ParseResult lib dty dst (serie\<lparr>Values := [r]\<rparr>) columns"
  proof (cases "filterMissing serie columns")
    case True
    then show ?thesis by (simp add: ParseResult_filterMissing)
  next
    case nm: False
    show ?thesis
    proof (cases "\<exists>t0 x0. dty = TPtr t0 \<and> dst = VPtr (Some x0)")
      case False
      with nm show ?thesis by (simp add: ParseResult_not_settable)
    next
      case True
      then obtain t0 x0 where d: "dty = TPtr t0" "dst = VPtr (Some x0)" by blast
      obtain t x put where m: "makePtrDstVal t0 x0 = (t, x, put)" by (cases "makePtrDstVal t0 x0")
      from assms d have s: "singular t0" by (simp add: singular_def)
      from nm show ?thesis
        by (simp add: d ParseResult_singular[OF s _ m])
    qed
  qed
next
  show "\<forall>t0 x0 t x put.
            dty = TPtr t0 \<and> dst = VPtr (Some x0) \<and> \<not> filterMissing serie columns \<and>
            makePtrDstVal t0 x0 = (t, x, put) \<longrightarrow>
            ParseResult lib dty dst (serie\<lparr>Values := r # rs\<rparr>) columns =
              (case parseSingle lib (Columns serie) r
                      (case Tags serie of None \<Rightarrow> [] | Some m \<Rightarrow> m) t x columns of
                 (x', err) \<Rightarrow> (VPtr (Some (put x')), err))"
  proof (intro allI impI, elim conjE)
    fix t0 x0 t x put
    assume d: "dty = TPtr t0" "dst = VPtr (Some x0)" and nm: "\<not> filterMissing serie columns"
      and m: "makePtrDstVal t0 x0 = (t, x, put)"
    from assms d have s: "singular t0" by (simp add: singular_def)
    from nm show "ParseResult lib dty dst (serie\<lparr>Values := r # rs\<rparr>) columns =
              (case parseSingle lib (Columns serie) r
                      (case Tags serie of None \<Rightarrow> [] | Some m \<Rightarrow> m) t x columns of
                 (x', err) \<Rightarrow> (VPtr (Some (put x')), err))"
      by (simp add: d ParseResult_singular[OF s _ m])
  qed
qed

theorem C9_first_row_only_witness:
  "singular (TPtr (TInt 64)) \<and>
   TPtr (TInt 64) = TPtr (TInt 64) \<and> VPtr (Some (VInt 0)) = VPtr (Some (VInt 0)) \<and>
   \<not> filterMissing \<lparr>Columns = [''a''], Values = [], Tags = None\<rparr> [] \<and>
   makePtrDstVal (TInt 64) (VInt 0) = (TInt 64, VInt 0, snd (snd (makePtrDstVal (TInt 64) (VInt 0)))) \<and>
   ParseResult plainLib (TPtr (TInt 64)) (VPtr (Some (VInt 0)))
     (\<lparr>Columns = [''a''], Values = [], Tags = None\<rparr>\<lparr>Values := [VInt 1] # [[VInt 2]]\<rparr>) [] =
   ParseResult plainLib (TPtr (TInt 64)) (VPtr (Some (VInt 0)))
     (\<lparr>Columns = [''a''], Values = [], Tags = None\<rparr>\<lparr>Values := [[VInt 1]]\<rparr>) [] \<and>
   ParseResult plainLib (TPtr (TInt 64)) (VPtr (Some (VInt 0)))
     (\<lparr>Columns = [''a''], Values = [], Tags = None\<rparr>\<lparr>Values := [VInt 1] # [[VInt 2]]\<rparr>) [] =
   (VPtr (Some (VInt 1)), None)"
proof -
  have h: "singular (TPtr (TInt 64))" by (simp add: singular_def)
  have h2: "\<not> filterMissing \<lparr>Columns = [''a''], Values = [], Tags = None\<rparr> []"
    by (simp add: filterMissing_def)
  have h3: "makePtrDstVal (TInt 64) (VInt 0) =
              (TInt 64, VInt 0, snd (snd (makePtrDstVal (TInt 64) (VInt 0))))"
    by simp
  have p: "parseSingle plainLib [''a''] [VInt 1] [] (TInt 64) (VInt 0) [] = (VInt 1, None)"
    by code_simp
  note w = C9_first_row_only[OF h, where lib = plainLib and dst = "VPtr (Some (VInt 0))"
      and serie = "\<lparr>Columns = [''a''], Values = [], Tags = None\<rparr>"
      and r = "[VInt 1]" and rs = "[[VInt 2]]" and columns = "[]"]
  from w have a: "ParseResult plainLib (TPtr (TInt 64)) (VPtr (Some (VInt 0)))
     (\<lparr>Columns = [''a''], Values = [], Tags = None\<rparr>\<lparr>Values := [VInt 1] # [[VInt 2]]\<rparr>) [] =
   ParseResult plainLib (TPtr (TInt 64)) (VPtr (Some (VInt 0)))
     (\<lparr>Columns = [''a''], Values = [], Tags = None\<rparr>\<lparr>Values := [[VInt 1]]\<rparr>) []"
    by blast
  from w[THEN conjunct2, rule_format, of "TInt 64" "VInt 0" "TInt 64" "VInt 0"
      "snd (snd (makePtrDstVal (TInt 64) (VInt 0)))"] h2 h3
  have b: "ParseResult plainLib (TPtr (TInt 64)) (VPtr (Some (VInt 0)))
     (\<lparr>Columns = [''a''], Values = [], Tags = None\<rparr>\<lparr>Values := [VInt 1] # [[VInt 2]]\<rparr>) [] =
   (VPtr (Some (VInt 1)), None)"
    by (simp add: p)
  from h h2 h3 a b show ?thesis by (intro conjI refl)
qed

text \<open>
  Claim C10. For a destination that can be set and whose type under its pointers is
  neither a slice nor \<open>interface{}\<close>, \<open>ParseResult\<close> on a result without rows, once
  the filter has passed the first test, reads the first row all the same and panics
  with an index out of range. So does \<open>parseSingle\<close> on a row without values under at
  least one column, and \<open>alignToStruct\<close> on such a row for a timestamp, which reads
  the first value.
\<close>

theorem C10_no_rows_panics:
  assumes "singular t0" "\<not> filterMissing serie columns" "Values serie = []"
  shows "snd (ParseResult lib (TPtr t0) (VPtr (Some x0)) serie columns) =
           Some (Panic IndexOutOfRange) \<and>
         (cols \<noteq> [] \<longrightarrow>
            parseSingle lib cols [] tags ty dst columns' = (dst, Some (Panic IndexOutOfRange))) \<and>
         alignToStruct lib cols [] tags TTime dst columns' = (dst, Some (Panic IndexOutOfRange))"
proof -
  obtain t x put where m: "makePtrDstVal t0 x0 = (t, x, put)" by (cases "makePtrDstVal t0 x0")
  have "snd (ParseResult lib (TPtr t0) (VPtr (Some x0)) serie columns) =
           Some (Panic IndexOutOfRange)"
    using ParseResult_singular[OF assms(1,2) m] assms(3) by simp
  then show ?thesis
    by (simp add: parseSingle.simps[of _ _ "[]"] alignToStruct.simps)
qed

theorem C10_no_rows_panics_witness:
  "singular (TStruct ''T'' [(''A'', [], TInt 64)]) \<and>
   \<not> filterMissing \<lparr>Columns = [''a''], Values = [], Tags = None\<rparr> [] \<and>
   Values \<lparr>Columns = [''a''], Values = [], Tags = None\<rparr> = [] \<and>
   [''a''] \<noteq> [] \<and>
   snd (ParseResult plainLib (TPtr (TStruct ''T'' [(''A'', [], TInt 64)]))
          (VPtr (Some (VStruct [VInt 0]))) \<lparr>Columns = [''a''], Values = [], Tags = None\<rparr> []) =
     Some (Panic IndexOutOfRange) \<and>
   parseSingle plainLib [''a''] [] [] (TInt 64) (VInt 0) [] = (VInt 0, Some (Panic IndexOutOfRange))"
proof -
  have h1: "singular (TStruct ''T'' [(''A'', [], TInt 64)])" by (simp add: singular_def)
  have h2: "\<not> filterMissing \<lparr>Columns = [''a''], Values = [], Tags = None\<rparr> []"
    by (simp add: filterMissing_def)
  have h3: "Values \<lparr>Columns = [''a''], Values = [], Tags = None\<rparr> = []" by simp
  have h4: "[''a''] \<noteq> []" by simp
  note w = C10_no_rows_panics[OF h1 h2 h3, of plainLib "VStruct [VInt 0]" "[''a'']" "[]"
      "TInt 64" "VInt 0" "[]"]
  from w have a: "snd (ParseResult plainLib (TPtr (TStruct ''T'' [(''A'', [], TInt 64)]))
          (VPtr (Some (VStruct [VInt 0]))) \<lparr>Columns = [''a''], Values = [], Tags = None\<rparr> []) =
     Some (Panic IndexOutOfRange)"
    by blast
  from w h4 have b: "parseSingle plainLib [''a''] [] [] (TInt 64) (VInt 0) [] =
     (VInt 0, Some (Panic IndexOutOfRange))"
    by blast
  from h1 h2 h3 h4 a b show ?thesis by (intro conjI)
qed

section \<open>Properties of the encode engine\<close>

lemma tagKeys_Cons:
  "tagKeys (fd # fs) = (if \<not> ignored fd \<and> \<not> isTimeField fd \<and> tagMarked fd then {pointKey fd} else {}) \<union> tagKeys fs"
  by (auto simp: tagKeys_def)

lemma fieldKeys_Cons:
  "fieldKeys (fd # fs) = (if \<not> ignored fd \<and> \<not> isTimeField fd \<and> \<not> tagMarked fd then {pointKey fd} else {}) \<union> fieldKeys fs"
  by (auto simp: fieldKeys_def)

lemma ToPoint_loop_dom:
  "ToPoint_loop lib (zip fs vs) (tags, flds, now) = Inr (tags', flds', now') \<Longrightarrow>
   length vs = length fs \<Longrightarrow>
   dom tags' = dom tags \<union> tagKeys fs \<and> dom flds' = dom flds \<union> fieldKeys fs"
proof (induction fs arbitrary: vs tags flds now)
  case Nil
  then show ?case by (simp add: tagKeys_def fieldKeys_def)
next
  case (Cons fd fs)
  from Cons.prems(2) obtain v vs' where vs: "vs = v # vs'" "length vs' = length fs"
    by (cases vs) auto
  show ?case
  proof (cases "ignored fd")
    case True
    with Cons.prems(1) Cons.IH[of vs' tags flds now] vs show ?thesis
      by (simp add: tagKeys_Cons fieldKeys_Cons ignored_def)
  next
    case ni: False
    show ?thesis
    proof (cases "isTimeField fd")
      case True
      with ni Cons.prems(1) vs obtain t where "v = VTime t"
        "ToPoint_loop lib (zip fs vs') (tags, flds, t) = Inr (tags', flds', now')"
        by (auto simp: ignored_def isTimeField_def Let_def split: if_splits gval.splits)
      with True ni Cons.IH[of vs' tags flds t] vs show ?thesis
        by (simp add: tagKeys_Cons fieldKeys_Cons)
    next
      case nt: False
      show ?thesis
      proof (cases "tagMarked fd")
        case True
        with ni nt Cons.prems(1) vs
        have "ToPoint_loop lib (zip fs vs') (tags(pointKey fd \<mapsto> parseString lib v), flds, now) = Inr (tags', flds', now')"
          by (auto simp: ignored_def isTimeField_def tagMarked_def pointKey_def Let_def split: if_splits)
        from Cons.IH[OF this vs(2)] True ni nt show ?thesis
          by (auto simp: tagKeys_Cons fieldKeys_Cons)
      next
        case False
        with ni nt Cons.prems(1) vs
        have "ToPoint_loop lib (zip fs vs') (tags, flds(pointKey fd \<mapsto> v), now) = Inr (tags', flds', now')"
          by (auto simp: ignored_def isTimeField_def tagMarked_def pointKey_def Let_def split: if_splits)
        from Cons.IH[OF this vs(2)] False ni nt show ?thesis
          by (auto simp: tagKeys_Cons fieldKeys_Cons)
      qed
    qed
  qed
qed


text \<open>
  Claim C3, as amended. When \<open>ToPoint\<close> returns a point for a record, given by value
  or by a pointer, the keys of its tag set are the keys of the fields marked as tags,
  and the keys of its field set are the keys of the other fields, the ignored fields
  and the time fields left out: every field goes to at most one of the two maps. The
  two sets of keys are disjoint exactly when no field marked as a tag has the key of a
  field that is not.
\<close>

theorem C3_point_keys:
  assumes "(ty, structure) = (TStruct n fs, VStruct vs) \<or>
           (ty, structure) = (TPtr (TStruct n fs), VPtr (Some (VStruct vs)))"
    and "length vs = length fs"
    and "ToPoint lib valid now method ty structure = Inr (Some p)"
  shows "dom (ptTags p) = tagKeys fs \<and> dom (ptFields p) = fieldKeys fs \<and>
         (dom (ptTags p) \<inter> dom (ptFields p) = {} \<longleftrightarrow> tagKeys fs \<inter> fieldKeys fs = {})"
proof -
  from assms(1,3) obtain tags flds now' where
    l: "ToPoint_loop lib (zip fs vs) (Map.empty, Map.empty, now) = Inr (tags, flds, now')"
    and p: "NewPoint valid (case method of Some m \<Rightarrow> m | None \<Rightarrow> titleToSnake (afterLastDot n)) tags flds now' = Some p"
    by (auto simp: ToPoint_def Let_def split: sum.splits prod.splits)
  from p have "ptTags p = tags" "ptFields p = flds"
    by (auto simp: NewPoint_def Let_def split: if_splits)
  with ToPoint_loop_dom[OF l assms(2)] show ?thesis by simp
qed

theorem C3_point_keys_witness:
  "((TStruct ''Cpu'' [(''Host'', ''host,tag'', TString), (''Load'', [], TInt 64)],
     VStruct [VStr ''a'', VInt 3]) =
    (TStruct ''Cpu'' [(''Host'', ''host,tag'', TString), (''Load'', [], TInt 64)],
     VStruct [VStr ''a'', VInt 3]) \<or>
    (TStruct ''Cpu'' [(''Host'', ''host,tag'', TString), (''Load'', [], TInt 64)],
     VStruct [VStr ''a'', VInt 3]) =
    (TPtr (TStruct ''Cpu'' [(''Host'', ''host,tag'', TString), (''Load'', [], TInt 64)]),
     VPtr (Some (VStruct [VStr ''a'', VInt 3])))) \<and>
   length [VStr ''a'', VInt 3] =
     length [(''Host'', ''host,tag'', TString), (''Load'', [], TInt 64 :: gtype)] \<and>
   ToPoint plainLib acceptAll 0 None
     (TStruct ''Cpu'' [(''Host'', ''host,tag'', TString), (''Load'', [], TInt 64)])
     (VStruct [VStr ''a'', VInt 3])
   = Inr (Some \<lparr>measurement = ''cpu'', ptTags = [''host'' \<mapsto> ''a''],
                 ptFields = [''load'' \<mapsto> VInt 3], ptTime = 0\<rparr>) \<and>
   dom [''host'' \<mapsto> ''a''] =
     tagKeys [(''Host'', ''host,tag'', TString), (''Load'', [], TInt 64)] \<and>
   dom [''load'' \<mapsto> VInt 3] =
     fieldKeys [(''Host'', ''host,tag'', TString), (''Load'', [], TInt 64)]"
proof -
  have m: "titleToSnake (afterLastDot ''Cpu'') = ''cpu''" "titleToSnake ''Load'' = ''load''"
    by code_simp+
  have h1: "(TStruct ''Cpu'' [(''Host'', ''host,tag'', TString), (''Load'', [], TInt 64)],
     VStruct [VStr ''a'', VInt 3]) =
    (TStruct ''Cpu'' [(''Host'', ''host,tag'', TString), (''Load'', [], TInt 64)],
     VStruct [VStr ''a'', VInt 3]) \<or>
    (TStruct ''Cpu'' [(''Host'', ''host,tag'', TString), (''Load'', [], TInt 64)],
     VStruct [VStr ''a'', VInt 3]) =
    (TPtr (TStruct ''Cpu'' [(''Host'', ''host,tag'', TString), (''Load'', [], TInt 64)]),
     VPtr (Some (VStruct [VStr ''a'', VInt 3])))"
    by simp
  have h2: "length [VStr ''a'', VInt 3] =
     length [(''Host'', ''host,tag'', TString), (''Load'', [], TInt 64 :: gtype)]"
    by simp
  have h3: "ToPoint plainLib acceptAll 0 None
     (TStruct ''Cpu'' [(''Host'', ''host,tag'', TString), (''Load'', [], TInt 64)])
     (VStruct [VStr ''a'', VInt 3])
   = Inr (Some \<lparr>measurement = ''cpu'', ptTags = [''host'' \<mapsto> ''a''],
                 ptFields = [''load'' \<mapsto> VInt 3], ptTime = 0\<rparr>)"
    by (simp add: ToPoint_def NewPoint_def acceptAll_def fieldInf_def fieldName_def exported_def
        isUpper_def HasSuffix_def parseString_def plainLib_def Let_def m)
  from C3_point_keys[OF h1 h2 h3]
  have c: "dom [''host'' \<mapsto> ''a''] =
     tagKeys [(''Host'', ''host,tag'', TString), (''Load'', [], TInt 64)]"
    "dom [''load'' \<mapsto> VInt 3] =
     fieldKeys [(''Host'', ''host,tag'', TString), (''Load'', [], TInt 64)]"
    by simp_all
  from h1 h2 h3 c show ?thesis by (intro conjI)
qed

text \<open>
  Claim C3, as stated, fails: a field marked as a tag and another field may carry the
  same name in their tags, and the name is then a key of both maps.
\<close>

theorem C3_counterexample:
  "ToPoint plainLib acceptAll 0 None
     (TStruct ''CpuLoad'' [(''Host'', ''x,tag'', TString), (''Load'', ''x'', TInt 64)])
     (VStruct [VStr ''a'', VInt 3])
   = Inr (Some \<lparr>measurement = ''cpu_load'', ptTags = [''x'' \<mapsto> ''a''],
                 ptFields = [''x'' \<mapsto> VInt 3], ptTime = 0\<rparr>) \<and>
   dom [''x'' \<mapsto> ''a''] \<inter> dom [''x'' \<mapsto> VInt 3] \<noteq> {}"
proof -
  have m: "titleToSnake (afterLastDot ''CpuLoad'') = ''cpu_load''" by code_simp
  show ?thesis
    by (simp add: ToPoint_def NewPoint_def acceptAll_def fieldInf_def fieldName_def exported_def
        isUpper_def HasSuffix_def parseString_def plainLib_def Let_def m)
qed




end
